theory Spec2Isabelle
  imports Main "HOL-Library.Word"
begin

section \<open>Python values and exceptions\<close>

text \<open>
  The module \<^verbatim>\<open>handeye_calibration.py\<close> moves plain data between a dataclass, ROS messages
  and nested dictionaries. A Python float is never computed with here, only carried from one
  container to the next, so it is modelled by its IEEE-754 binary64 bit pattern: two floats
  are the same value exactly when their 64 bits agree (this also keeps NaN and the sign of
  zero apart, as object identity does).
\<close>

type_synonym float64 = "64 word"

text \<open>
  The plain data a dictionary handled by this module holds. A \<^verbatim>\<open>dict\<close> is an association
  list; a key is looked up from the left, and the module only ever looks up string keys.
\<close>

datatype pyval =
    PNone
  | PBool bool
  | PInt int
  | PFloat float64
  | PStr string
  | PList "pyval list"
  | PDict "(pyval \<times> pyval) list"

text \<open>
  The exceptions that the module and the libraries it calls raise. \<open>KeyError\<close> carries the
  missing key and \<open>ValueError\<close> its message; \<open>ParameterNotDeclaredException\<close> is rclpy's,
  \<open>OSError\<close> the operating system's and \<open>YAMLError\<close> the YAML parser's.
\<close>

datatype error =
    KeyError pyval
  | TypeError
  | AssertionError
  | AttributeError
  | ValueError string
  | ParameterNotDeclaredException string
  | OSError
  | YAMLError

text \<open>Sequencing of computations that may raise: the first exception ends the evaluation.\<close>

definition and_then :: "error + 'a \<Rightarrow> ('a \<Rightarrow> error + 'b) \<Rightarrow> error + 'b" where
  "and_then m f = (case m of Inl e \<Rightarrow> Inl e | Inr v \<Rightarrow> f v)"

text \<open>Python's truth value of an object, as the \<^verbatim>\<open>if\<close> of the constructor tests it.\<close>

fun truthy :: "pyval \<Rightarrow> bool" where
  "truthy PNone = False"
| "truthy (PBool b) = b"
| "truthy (PInt i) = (i \<noteq> 0)"
| "truthy (PFloat f) = (f \<noteq> 0 \<and> f \<noteq> 0x8000000000000000)"
| "truthy (PStr s) = (s \<noteq> [])"
| "truthy (PList xs) = (xs \<noteq> [])"
| "truthy (PDict kvs) = (kvs \<noteq> [])"

text \<open>
  \<^verbatim>\<open>obj[key]\<close> for a string key: a dictionary raises \<open>KeyError\<close> when the key is absent;
  a string or a list refuses a string index and every other object is not subscriptable,
  both with \<open>TypeError\<close>.
\<close>

fun getitem :: "pyval \<Rightarrow> string \<Rightarrow> error + pyval" where
  "getitem (PDict kvs) k =
     (case map_of kvs (PStr k) of None \<Rightarrow> Inl (KeyError (PStr k)) | Some v \<Rightarrow> Inr v)"
| "getitem _ k = Inl TypeError"

section \<open>The dataclass HandeyeCalibrationParameters\<close>

text \<open>
  A dataclass does not check the annotations of its fields: each field holds whatever object
  the constructor was given. The annotations (\<^verbatim>\<open>str\<close>, \<^verbatim>\<open>bool\<close>) are kept as the predicate
  \<open>typed_parameters\<close>.
\<close>

record HandeyeCalibrationParameters =
  name :: pyval
  eye_in_hand :: pyval
  robot_base_frame :: pyval
  robot_effector_frame :: pyval
  tracking_base_frame :: pyval
  tracking_marker_frame :: pyval
  freehand_robot_movement :: pyval
  move_group_namespace :: pyval
  move_group :: pyval

fun is_str :: "pyval \<Rightarrow> bool" where
  "is_str (PStr s) = True"
| "is_str _ = False"

fun is_bool :: "pyval \<Rightarrow> bool" where
  "is_bool (PBool b) = True"
| "is_bool _ = False"

definition typed_parameters :: "HandeyeCalibrationParameters \<Rightarrow> bool" where
  "typed_parameters p =
     (is_str (name p) \<and> is_bool (eye_in_hand p) \<and> is_str (robot_base_frame p) \<and>
      is_str (robot_effector_frame p) \<and> is_str (tracking_base_frame p) \<and>
      is_str (tracking_marker_frame p) \<and> is_bool (freehand_robot_movement p) \<and>
      is_str (move_group_namespace p) \<and> is_str (move_group p))"

text \<open>
  The generated \<^verbatim>\<open>__init__\<close>: seven required arguments and two with defaults
  (\<open>None\<close> stands for an argument that the caller left out).
\<close>

definition HandeyeCalibrationParameters_init ::
  "pyval \<Rightarrow> pyval \<Rightarrow> pyval \<Rightarrow> pyval \<Rightarrow> pyval \<Rightarrow> pyval \<Rightarrow> pyval \<Rightarrow>
   pyval option \<Rightarrow> pyval option \<Rightarrow> HandeyeCalibrationParameters" where
  "HandeyeCalibrationParameters_init a_name a_eye_in_hand a_robot_base_frame
       a_robot_effector_frame a_tracking_base_frame a_tracking_marker_frame
       a_freehand_robot_movement a_move_group_namespace a_move_group =
     \<lparr> name = a_name,
       eye_in_hand = a_eye_in_hand,
       robot_base_frame = a_robot_base_frame,
       robot_effector_frame = a_robot_effector_frame,
       tracking_base_frame = a_tracking_base_frame,
       tracking_marker_frame = a_tracking_marker_frame,
       freehand_robot_movement = a_freehand_robot_movement,
       move_group_namespace =
         (case a_move_group_namespace of None \<Rightarrow> PStr ''/'' | Some v \<Rightarrow> v),
       move_group =
         (case a_move_group of None \<Rightarrow> PStr ''manipulator'' | Some v \<Rightarrow> v) \<rparr>"

text \<open>
  \<^verbatim>\<open>dataclasses.fields\<close>: the field names in declaration order, each with its accessor.
\<close>

definition dataclass_fields :: "(string \<times> (HandeyeCalibrationParameters \<Rightarrow> pyval)) list" where
  "dataclass_fields =
     [(''name'', name),
      (''eye_in_hand'', eye_in_hand),
      (''robot_base_frame'', robot_base_frame),
      (''robot_effector_frame'', robot_effector_frame),
      (''tracking_base_frame'', tracking_base_frame),
      (''tracking_marker_frame'', tracking_marker_frame),
      (''freehand_robot_movement'', freehand_robot_movement),
      (''move_group_namespace'', move_group_namespace),
      (''move_group'', move_group)]"

text \<open>
  \<^verbatim>\<open>dataclasses.asdict\<close>: a dictionary from every field name to a copy of the field's
  value (a copy of plain data is the same data).
\<close>

definition asdict :: "HandeyeCalibrationParameters \<Rightarrow> pyval" where
  "asdict p = PDict (map (\<lambda>(n, field). (PStr n, field p)) dataclass_fields)"

text \<open>
  A keyword argument taken from the dictionary of a \<^verbatim>\<open>**\<close> call: a required one that is
  absent is a \<open>TypeError\<close>.
\<close>

definition required :: "(pyval \<times> pyval) list \<Rightarrow> string \<Rightarrow> error + pyval" where
  "required kvs k = (case map_of kvs (PStr k) of None \<Rightarrow> Inl TypeError | Some v \<Rightarrow> Inr v)"

text \<open>
  \<^verbatim>\<open>HandeyeCalibrationParameters(**d)\<close>: \<open>d\<close> must be a mapping, every key a string that names
  a field, and the seven fields without default present; each violation is a \<open>TypeError\<close>.
\<close>

definition HandeyeCalibrationParameters_kwargs ::
  "pyval \<Rightarrow> error + HandeyeCalibrationParameters" where
  "HandeyeCalibrationParameters_kwargs d =
     (case d of
        PDict kvs \<Rightarrow>
          if list_all (\<lambda>k. k \<in> set (map (PStr \<circ> fst) dataclass_fields)) (map fst kvs) then
            and_then (required kvs ''name'') (\<lambda>a_name.
            and_then (required kvs ''eye_in_hand'') (\<lambda>a_eye_in_hand.
            and_then (required kvs ''robot_base_frame'') (\<lambda>a_robot_base_frame.
            and_then (required kvs ''robot_effector_frame'') (\<lambda>a_robot_effector_frame.
            and_then (required kvs ''tracking_base_frame'') (\<lambda>a_tracking_base_frame.
            and_then (required kvs ''tracking_marker_frame'') (\<lambda>a_tracking_marker_frame.
            and_then (required kvs ''freehand_robot_movement'') (\<lambda>a_freehand_robot_movement.
              Inr (HandeyeCalibrationParameters_init a_name a_eye_in_hand a_robot_base_frame
                     a_robot_effector_frame a_tracking_base_frame a_tracking_marker_frame
                     a_freehand_robot_movement
                     (map_of kvs (PStr ''move_group_namespace''))
                     (map_of kvs (PStr ''move_group''))))))))))
          else Inl TypeError
      | _ \<Rightarrow> Inl TypeError)"

section \<open>The ROS messages of geometry\_msgs\<close>

text \<open>
  The messages are field containers. Their generated setters assert the type of what is
  assigned: a \<^verbatim>\<open>float64\<close> field takes a Python float only, a \<^verbatim>\<open>string\<close> field a
  \<^verbatim>\<open>str\<close> only; anything else raises \<open>AssertionError\<close>. A field that the constructor is
  not given holds the default of its type. The assertions are those of the field checks of
  the messages, which are not part of this module; the model is that of the checks being
  on, so a field holds a value of its type only. With the checks off a setter stores what
  it is given, and the two agree on every value of the field's type.
\<close>

record Vector3 =
  Vector3_x :: float64
  Vector3_y :: float64
  Vector3_z :: float64

record Quaternion =
  Quaternion_x :: float64
  Quaternion_y :: float64
  Quaternion_z :: float64
  Quaternion_w :: float64

record Transform =
  translation :: Vector3
  rotation :: Quaternion

record Time =
  sec :: int
  nanosec :: nat

record Header =
  stamp :: Time
  frame_id :: string

record TransformStamped =
  header :: Header
  child_frame_id :: string
  transform :: Transform

fun as_float :: "pyval \<Rightarrow> error + float64" where
  "as_float (PFloat f) = Inr f"
| "as_float _ = Inl AssertionError"

fun as_str :: "pyval \<Rightarrow> error + string" where
  "as_str (PStr s) = Inr s"
| "as_str _ = Inl AssertionError"

definition Vector3_init :: "pyval \<Rightarrow> pyval \<Rightarrow> pyval \<Rightarrow> error + Vector3" where
  "Vector3_init vx vy vz =
     and_then (as_float vx) (\<lambda>fx.
     and_then (as_float vy) (\<lambda>fy.
     and_then (as_float vz) (\<lambda>fz.
       Inr \<lparr> Vector3_x = fx, Vector3_y = fy, Vector3_z = fz \<rparr>)))"

definition Quaternion_init :: "pyval \<Rightarrow> pyval \<Rightarrow> pyval \<Rightarrow> pyval \<Rightarrow> error + Quaternion" where
  "Quaternion_init vx vy vz vw =
     and_then (as_float vx) (\<lambda>fx.
     and_then (as_float vy) (\<lambda>fy.
     and_then (as_float vz) (\<lambda>fz.
     and_then (as_float vw) (\<lambda>fw.
       Inr \<lparr> Quaternion_x = fx, Quaternion_y = fy, Quaternion_z = fz, Quaternion_w = fw \<rparr>))))"

text \<open>
  The defaults: \<^verbatim>\<open>Vector3()\<close> is \<open>(0.0, 0.0, 0.0)\<close>, whose bits are all zero, and
  \<^verbatim>\<open>Quaternion()\<close> is the identity rotation \<open>(0.0, 0.0, 0.0, 1.0)\<close> that
  \<^verbatim>\<open>Quaternion.msg\<close> declares; \<open>0x3FF0000000000000\<close> are the bits of \<open>1.0\<close>.
\<close>

definition Vector3_default :: Vector3 where
  "Vector3_default = \<lparr> Vector3_x = 0, Vector3_y = 0, Vector3_z = 0 \<rparr>"

definition Quaternion_default :: Quaternion where
  "Quaternion_default =
     \<lparr> Quaternion_x = 0, Quaternion_y = 0, Quaternion_z = 0, Quaternion_w = 0x3FF0000000000000 \<rparr>"

definition Transform_default :: Transform where
  "Transform_default = \<lparr> translation = Vector3_default, rotation = Quaternion_default \<rparr>"

definition Header_default :: Header where
  "Header_default = \<lparr> stamp = \<lparr> sec = 0, nanosec = 0 \<rparr>, frame_id = '''' \<rparr>"

text \<open>\<^verbatim>\<open>TransformStamped(transform=t)\<close>: the other two fields hold their defaults.\<close>

definition TransformStamped_init :: "Transform \<Rightarrow> TransformStamped" where
  "TransformStamped_init t = \<lparr> header = Header_default, child_frame_id = '''', transform = t \<rparr>"

section \<open>The class HandeyeCalibration\<close>

record HandeyeCalibration =
  parameters :: HandeyeCalibrationParameters
  transformation :: TransformStamped

text \<open>
  \<^verbatim>\<open>__init__(self, calibration_parameters=None, transformation=None)\<close>. The two arguments
  are optional in the signature; \<open>None\<close> is the omitted argument. The transformation is
  stored first; then \<^verbatim>\<open>self.parameters.eye_in_hand\<close> is read, which raises
  \<open>AttributeError\<close> on \<open>None\<close>; then the two frame names are assigned to string fields
  of the message. An object exists only when none of this raised, so the field
  \<open>parameters\<close> of an object is never \<open>None\<close>.
\<close>

definition HandeyeCalibration_init ::
  "HandeyeCalibrationParameters option \<Rightarrow> Transform option \<Rightarrow> error + HandeyeCalibration" where
  "HandeyeCalibration_init calibration_parameters a_transformation =
     (let stamped =
            TransformStamped_init
              (case a_transformation of None \<Rightarrow> Transform_default | Some t \<Rightarrow> t)
      in case calibration_parameters of
           None \<Rightarrow> Inl AttributeError
         | Some p \<Rightarrow>
             and_then
               (as_str (if truthy (eye_in_hand p) then robot_effector_frame p
                        else robot_base_frame p))
               (\<lambda>frame.
             and_then (as_str (tracking_base_frame p)) (\<lambda>child.
               Inr \<lparr> parameters = p,
                     transformation =
                       stamped\<lparr> header := (header stamped)\<lparr> frame_id := frame \<rparr>,
                                child_frame_id := child \<rparr> \<rparr>)))"

text \<open>
  \<^verbatim>\<open>to_dict\<close>: the canonical two-level dictionary. (\<^verbatim>\<open>asdict\<close> is given a dataclass
  instance, since \<open>parameters\<close> of an object is never \<open>None\<close>.)
\<close>

definition to_dict :: "HandeyeCalibration \<Rightarrow> pyval" where
  "to_dict calibration =
     PDict
       [(PStr ''parameters'', asdict (parameters calibration)),
        (PStr ''transformation'',
         PDict
           [(PStr ''x'', PFloat (Vector3_x (translation (transform (transformation calibration))))),
            (PStr ''y'', PFloat (Vector3_y (translation (transform (transformation calibration))))),
            (PStr ''z'', PFloat (Vector3_z (translation (transform (transformation calibration))))),
            (PStr ''qx'', PFloat (Quaternion_x (rotation (transform (transformation calibration))))),
            (PStr ''qy'', PFloat (Quaternion_y (rotation (transform (transformation calibration))))),
            (PStr ''qz'', PFloat (Quaternion_z (rotation (transform (transformation calibration))))),
            (PStr ''qw'', PFloat (Quaternion_w (rotation (transform (transformation calibration)))))])]"

text \<open>
  \<^verbatim>\<open>from_dict\<close>, in Python's order of evaluation: \<^verbatim>\<open>in_dict['transformation']\<close> first; then
  the first keyword argument, \<^verbatim>\<open>HandeyeCalibrationParameters(**in_dict['parameters'])\<close>; then
  the second, the \<^verbatim>\<open>Vector3\<close> before the \<^verbatim>\<open>Quaternion\<close>, each after the subscripts
  that feed it; the constructor last.
\<close>

definition from_dict :: "pyval \<Rightarrow> error + HandeyeCalibration" where
  "from_dict in_dict =
     and_then (getitem in_dict ''transformation'') (\<lambda>tr.
     and_then (getitem in_dict ''parameters'') (\<lambda>kw.
     and_then (HandeyeCalibrationParameters_kwargs kw) (\<lambda>p.
     and_then (getitem tr ''x'') (\<lambda>vx.
     and_then (getitem tr ''y'') (\<lambda>vy.
     and_then (getitem tr ''z'') (\<lambda>vz.
     and_then (Vector3_init vx vy vz) (\<lambda>v.
     and_then (getitem tr ''qx'') (\<lambda>wx.
     and_then (getitem tr ''qy'') (\<lambda>wy.
     and_then (getitem tr ''qz'') (\<lambda>wz.
     and_then (getitem tr ''qw'') (\<lambda>ww.
     and_then (Quaternion_init wx wy wz ww) (\<lambda>q.
       HandeyeCalibration_init (Some p)
         (Some \<lparr> translation = v, rotation = q \<rparr>)))))))))))))"

subsection \<open>Text format\<close>

text \<open>
  \<^verbatim>\<open>yaml.dump\<close> and \<^verbatim>\<open>yaml.safe_load\<close> belong to PyYAML, not to this module; the
  functions that call them take them as the arguments \<open>dump\<close> and \<open>safe_load\<close>.
\<close>

definition to_yaml :: "(pyval \<Rightarrow> string) \<Rightarrow> HandeyeCalibration \<Rightarrow> string" where
  "to_yaml dump calibration = dump (to_dict calibration)"

definition from_yaml ::
  "(string \<Rightarrow> error + pyval) \<Rightarrow> string \<Rightarrow> error + HandeyeCalibration" where
  "from_yaml safe_load in_yaml = and_then (safe_load in_yaml) from_dict"

subsection \<open>What the text format returns\<close>

text \<open>
  A float is a NaN when its exponent bits are all ones and its fraction is not zero: its 63
  bits without the sign are above those of infinity.
\<close>

definition is_nan :: "float64 \<Rightarrow> bool" where
  "is_nan f = (0x7FF0000000000000 < take_bit 63 f)"

text \<open>
  Modelled from the spec: the text notation of section 4.4 is PyYAML's, whose
  \<^verbatim>\<open>yaml.dump\<close> and \<^verbatim>\<open>yaml.safe_load\<close> are not under \<^verbatim>\<open>src/\<close>. \<open>yaml_float\<close> is the
  float that the parser returns for the scalar that the dumper writes for a float. A number
  or an infinity is written by \<^verbatim>\<open>repr\<close> (an infinity as \<^verbatim>\<open>.inf\<close> or \<^verbatim>\<open>-.inf\<close>), which
  reads back as the same float. Every NaN is written as the one scalar \<^verbatim>\<open>.nan\<close>, whatever
  its bits, and the parser reads \<^verbatim>\<open>.nan\<close> as its own NaN, \<open>nan_value\<close>, which it computes
  once as \<^verbatim>\<open>-inf/inf\<close> (the bits \<open>0xFFF8000000000000\<close> on x86-64).
\<close>

definition yaml_float :: "float64 \<Rightarrow> float64 \<Rightarrow> float64" where
  "yaml_float nan_value f = (if is_nan f then nan_value else f)"

text \<open>
  Modelled from the spec: the same notation, for a whole structure. \<open>yaml_loaded\<close> is the
  structure that the parser returns for the block-style text that the dumper writes for a
  structure: the scalars and the nesting are kept, a boolean, an integer and a string come
  back as they were, and a float as \<open>yaml_float\<close> says. The order of the keys, which the
  dumper sorts, is left as it was: no lookup depends on it.
\<close>

primrec yaml_loaded :: "float64 \<Rightarrow> pyval \<Rightarrow> pyval" where
  "yaml_loaded nan_value PNone = PNone"
| "yaml_loaded nan_value (PBool b) = PBool b"
| "yaml_loaded nan_value (PInt i) = PInt i"
| "yaml_loaded nan_value (PFloat f) = PFloat (yaml_float nan_value f)"
| "yaml_loaded nan_value (PStr s) = PStr s"
| "yaml_loaded nan_value (PList xs) = PList (map (yaml_loaded nan_value) xs)"
| "yaml_loaded nan_value (PDict kvs) =
     PDict (map (map_prod (yaml_loaded nan_value) (yaml_loaded nan_value)) kvs)"

text \<open>The seven components of a transform, in the order \<open>x, y, z, qx, qy, qz, qw\<close>.\<close>

definition components :: "Transform \<Rightarrow> float64 list" where
  "components t =
     [Vector3_x (translation t), Vector3_y (translation t), Vector3_z (translation t),
      Quaternion_x (rotation t), Quaternion_y (rotation t), Quaternion_z (rotation t),
      Quaternion_w (rotation t)]"

subsection \<open>Files\<close>

text \<open>
  The operating system, as far as the module calls it, over a state \<open>'w\<close> of the file
  system: \<^verbatim>\<open>os.path.exists\<close>, \<^verbatim>\<open>os.makedirs\<close>, reading a file opened by
  \<^verbatim>\<open>open(path)\<close> and writing one opened by \<^verbatim>\<open>open(path, 'w')\<close>. The calls that change
  the file system return its new state, also when they raise.
\<close>

record 'w os =
  path_exists :: "'w \<Rightarrow> string \<Rightarrow> bool"
  makedirs :: "'w \<Rightarrow> string \<Rightarrow> 'w \<times> (error + unit)"
  open_read :: "'w \<Rightarrow> string \<Rightarrow> error + string"
  open_write :: "'w \<Rightarrow> string \<Rightarrow> string \<Rightarrow> 'w \<times> (error + unit)"

text \<open>
  \<^verbatim>\<open>DIRECTORY = os.path.expanduser('~/.ros2/easy_handeye')\<close>, for the home directory of the
  user: \<^verbatim>\<open>expanduser\<close> puts the home directory, without the slashes at its end, in the
  place of the tilde.
\<close>

definition DIRECTORY :: "string \<Rightarrow> string" where
  "DIRECTORY home = rev (dropWhile (\<lambda>c. c = CHR ''/'') (rev home)) @ ''/.ros2/easy_handeye''"

text \<open>
  Both path derivations raise in their first statement; the \<^verbatim>\<open>return\<close> that follows in
  the source is never reached.
\<close>

definition filename :: "HandeyeCalibration \<Rightarrow> error + string" where
  "filename self = Inl (ValueError ''TODO'')"

definition filename_for_namespace :: "string \<Rightarrow> error + string" where
  "filename_for_namespace namespace = Inl (ValueError ''TODO'')"

text \<open>
  \<^verbatim>\<open>to_file\<close>: the directory is created when it does not exist; then
  \<^verbatim>\<open>calibration.filename()\<close> is evaluated, as the argument of \<^verbatim>\<open>open\<close>, before anything
  is opened or written.
\<close>

definition to_file ::
  "'w os \<Rightarrow> (pyval \<Rightarrow> string) \<Rightarrow> string \<Rightarrow> 'w \<Rightarrow> HandeyeCalibration \<Rightarrow> 'w \<times> (error + unit)" where
  "to_file sys dump home w calibration =
     (case (if \<not> path_exists sys w (DIRECTORY home) then makedirs sys w (DIRECTORY home)
            else (w, Inr ())) of
        (w1, Inl e) \<Rightarrow> (w1, Inl e)
      | (w1, Inr _) \<Rightarrow>
          (case filename calibration of
             Inl e \<Rightarrow> (w1, Inl e)
           | Inr path \<Rightarrow> open_write sys w1 path (to_yaml dump calibration)))"

definition from_file ::
  "'w os \<Rightarrow> (string \<Rightarrow> error + pyval) \<Rightarrow> 'w \<Rightarrow> string \<Rightarrow> error + HandeyeCalibration" where
  "from_file sys safe_load w namespace =
     and_then (filename_for_namespace namespace) (\<lambda>path.
     and_then (open_read sys w path) (\<lambda>content.
       from_yaml safe_load content))"

definition from_filename ::
  "'w os \<Rightarrow> (string \<Rightarrow> error + pyval) \<Rightarrow> 'w \<Rightarrow> string \<Rightarrow> error + HandeyeCalibration" where
  "from_filename sys safe_load w path =
     and_then (open_read sys w path) (\<lambda>content.
       from_yaml safe_load content)"

section \<open>The class HandeyeCalibrationParametersProvider\<close>

text \<open>
  A node, as far as \<^verbatim>\<open>read\<close> uses it: the parameters declared on it, each with its
  \<^verbatim>\<open>ParameterValue\<close> message, of which \<^verbatim>\<open>read\<close> takes the fields \<^verbatim>\<open>string_value\<close> and
  \<^verbatim>\<open>bool_value\<close>. \<^verbatim>\<open>get_parameter\<close> raises for a name that is not declared.
\<close>

record ParameterValue =
  bool_value :: bool
  string_value :: string

type_synonym Node = "string \<rightharpoonup> ParameterValue"

definition get_parameter :: "Node \<Rightarrow> string \<Rightarrow> error + ParameterValue" where
  "get_parameter node k =
     (case node k of None \<Rightarrow> Inl (ParameterNotDeclaredException k) | Some v \<Rightarrow> Inr v)"

text \<open>The names that the constructor of the provider declares on the node.\<close>

definition declared_names :: "string list" where
  "declared_names =
     [''name'', ''eye_in_hand'', ''robot_base_frame'', ''robot_effector_frame'',
      ''tracking_base_frame'', ''tracking_marker_frame'', ''freehand_robot_movement'']"

text \<open>
  \<^verbatim>\<open>read\<close>: seven keyword arguments, evaluated in the order written; the dataclass is
  constructed without \<^verbatim>\<open>move_group_namespace\<close> and \<^verbatim>\<open>move_group\<close>.
\<close>

definition read :: "Node \<Rightarrow> error + HandeyeCalibrationParameters" where
  "read node =
     and_then (get_parameter node ''name'') (\<lambda>v1.
     and_then (get_parameter node ''eye_in_hand'') (\<lambda>v2.
     and_then (get_parameter node ''robot_base_frame'') (\<lambda>v3.
     and_then (get_parameter node ''robot_effector_frame'') (\<lambda>v4.
     and_then (get_parameter node ''tracking_base_frame'') (\<lambda>v5.
     and_then (get_parameter node ''tracking_marker_frame'') (\<lambda>v6.
     and_then (get_parameter node ''freehand_robot_movement'') (\<lambda>v7.
       Inr (HandeyeCalibrationParameters_init
              (PStr (string_value v1)) (PBool (bool_value v2)) (PStr (string_value v3))
              (PStr (string_value v4)) (PStr (string_value v5)) (PStr (string_value v6))
              (PBool (bool_value v7)) None None))))))))"

section \<open>Error kinds\<close>

text \<open>
  The specification files the failures of reconstruction under one kind, SchemaMismatch: the
  structure lacks a required key or holds a value of the wrong type. Of the exceptions above
  these are \<open>KeyError\<close> (a subscript with an absent key), \<open>TypeError\<close> (a subscript of
  an object that is no dictionary, a keyword that is no field, a required keyword left out)
  and \<open>AssertionError\<close> (a message field assigned a value of another type). The other
  exceptions are of the other kinds.
\<close>

fun SchemaMismatch :: "error \<Rightarrow> bool" where
  "SchemaMismatch (KeyError k) = True"
| "SchemaMismatch TypeError = True"
| "SchemaMismatch AssertionError = True"
| "SchemaMismatch _ = False"

text \<open>A computation that, when it raises, raises an exception with property \<open>P\<close>.\<close>

definition raises_only :: "(error \<Rightarrow> bool) \<Rightarrow> error + 'a \<Rightarrow> bool" where
  "raises_only P m = (case m of Inl e \<Rightarrow> P e | Inr v \<Rightarrow> True)"

text \<open>The keys that \<^verbatim>\<open>from_dict\<close> reads from the dictionary under \<^verbatim>\<open>'transformation'\<close>.\<close>

definition transformation_keys :: "string list" where
  "transformation_keys = [''x'', ''y'', ''z'', ''qx'', ''qy'', ''qz'', ''qw'']"

section \<open>Example values\<close>

text \<open>
  The record of the specification's example: calibration \<open>cal1\<close>, eye in hand, effector
  frame \<open>tool0\<close>, translation \<open>(1.0, 2.0, 3.0)\<close> and rotation \<open>(0, 0, 0, 1)\<close>. The words
  are the bits of the floats \<open>1.0\<close>, \<open>2.0\<close> and \<open>3.0\<close>.
\<close>

definition cal1_parameters :: HandeyeCalibrationParameters where
  "cal1_parameters =
     \<lparr> name = PStr ''cal1'',
       eye_in_hand = PBool True,
       robot_base_frame = PStr ''base_link'',
       robot_effector_frame = PStr ''tool0'',
       tracking_base_frame = PStr ''camera_link'',
       tracking_marker_frame = PStr ''marker'',
       freehand_robot_movement = PBool False,
       move_group_namespace = PStr ''/'',
       move_group = PStr ''manipulator'' \<rparr>"

definition cal1_transform :: Transform where
  "cal1_transform =
     \<lparr> translation =
         \<lparr> Vector3_x = 0x3FF0000000000000, Vector3_y = 0x4000000000000000,
           Vector3_z = 0x4008000000000000 \<rparr>,
       rotation =
         \<lparr> Quaternion_x = 0, Quaternion_y = 0, Quaternion_z = 0,
           Quaternion_w = 0x3FF0000000000000 \<rparr> \<rparr>"

definition cal1 :: HandeyeCalibration where
  "cal1 =
     \<lparr> parameters = cal1_parameters,
       transformation =
         \<lparr> header = \<lparr> stamp = \<lparr> sec = 0, nanosec = 0 \<rparr>, frame_id = ''tool0'' \<rparr>,
           child_frame_id = ''camera_link'',
           transform = cal1_transform \<rparr> \<rparr>"

text \<open>
  Two dictionaries that are not the dictionary of a calibration: one without the key
  \<^verbatim>\<open>'transformation'\<close>, one whose transformation has no \<^verbatim>\<open>'qw'\<close>.
\<close>

definition cal1_without_transformation :: "(pyval \<times> pyval) list" where
  "cal1_without_transformation = [(PStr ''parameters'', asdict cal1_parameters)]"

definition transformation_without_qw :: "(pyval \<times> pyval) list" where
  "transformation_without_qw =
     [(PStr ''x'', PFloat 0x3FF0000000000000), (PStr ''y'', PFloat 0x4000000000000000),
      (PStr ''z'', PFloat 0x4008000000000000), (PStr ''qx'', PFloat 0),
      (PStr ''qy'', PFloat 0), (PStr ''qz'', PFloat 0)]"

definition cal1_without_qw :: "(pyval \<times> pyval) list" where
  "cal1_without_qw =
     [(PStr ''parameters'', asdict cal1_parameters),
      (PStr ''transformation'', PDict transformation_without_qw)]"

text \<open>
  A node on which the seven names are declared with the values of \<open>cal1\<close>, and on which
  \<^verbatim>\<open>move_group\<close> and \<^verbatim>\<open>move_group_namespace\<close> are declared too, with values that are
  not the defaults.
\<close>

definition cal1_node :: Node where
  "cal1_node =
     map_of
       [(''name'', \<lparr> bool_value = False, string_value = ''cal1'' \<rparr>),
        (''eye_in_hand'', \<lparr> bool_value = True, string_value = [] \<rparr>),
        (''robot_base_frame'', \<lparr> bool_value = False, string_value = ''base_link'' \<rparr>),
        (''robot_effector_frame'', \<lparr> bool_value = False, string_value = ''tool0'' \<rparr>),
        (''tracking_base_frame'', \<lparr> bool_value = False, string_value = ''camera_link'' \<rparr>),
        (''tracking_marker_frame'', \<lparr> bool_value = False, string_value = ''marker'' \<rparr>),
        (''freehand_robot_movement'', \<lparr> bool_value = False, string_value = [] \<rparr>),
        (''move_group_namespace'', \<lparr> bool_value = False, string_value = ''/robot1'' \<rparr>),
        (''move_group'', \<lparr> bool_value = False, string_value = ''arm'' \<rparr>)]"

text \<open>
  A small file system: the directories that exist and the files with their contents. Every
  directory can be created and every file written; a file that does not exist cannot be read.
\<close>

definition example_os :: "(string list \<times> (string \<times> string) list) os" where
  "example_os =
     \<lparr> path_exists = (\<lambda>(ds, fs) path. path \<in> set ds \<or> path \<in> set (map fst fs)),
       makedirs = (\<lambda>(ds, fs) path. ((path # ds, fs), Inr ())),
       open_read =
         (\<lambda>(ds, fs) path. case map_of fs path of None \<Rightarrow> Inl OSError | Some c \<Rightarrow> Inr c),
       open_write = (\<lambda>(ds, fs) path c. ((ds, (path, c) # fs), Inr ())) \<rparr>"

definition example_world :: "string list \<times> (string \<times> string) list" where
  "example_world = ([''/home/user/.ros2/easy_handeye''], [(''/tmp/cal1.yaml'', ''cal1'')])"

text \<open>A parser that knows one text, that of \<open>cal1\<close>, and a dumper that writes it.\<close>

definition example_safe_load :: "string \<Rightarrow> error + pyval" where
  "example_safe_load s = (if s = ''cal1'' then Inr (to_dict cal1) else Inl YAMLError)"

definition example_dump :: "pyval \<Rightarrow> string" where
  "example_dump d = (if d = to_dict cal1 then ''cal1'' else ''other'')"

text \<open>
  The calibration \<open>cal1\<close> with \<^verbatim>\<open>float('nan')\<close>, whose bits are \<open>0x7FF8000000000000\<close>, as
  the \<open>x\<close> of its translation; the text that \<^verbatim>\<open>yaml.dump\<close> writes for its dictionary, line
  by line; and a dumper and a parser that know this one text.
\<close>

definition cal_nan :: HandeyeCalibration where
  "cal_nan =
     cal1\<lparr> transformation := (transformation cal1)\<lparr> transform :=
       cal1_transform\<lparr> translation :=
         (translation cal1_transform)\<lparr> Vector3_x := 0x7FF8000000000000 \<rparr> \<rparr> \<rparr> \<rparr>"

definition yaml_lines :: "string list \<Rightarrow> string" where
  "yaml_lines ls = concat (map (\<lambda>l. l @ [CHR 0x0A]) ls)"

definition cal_nan_text :: string where
  "cal_nan_text =
     yaml_lines
       [''parameters:'',
        ''  eye_in_hand: true'',
        ''  freehand_robot_movement: false'',
        ''  move_group: manipulator'',
        ''  move_group_namespace: /'',
        ''  name: cal1'',
        ''  robot_base_frame: base_link'',
        ''  robot_effector_frame: tool0'',
        ''  tracking_base_frame: camera_link'',
        ''  tracking_marker_frame: marker'',
        ''transformation:'',
        ''  qw: 1.0'',
        ''  qx: 0.0'',
        ''  qy: 0.0'',
        ''  qz: 0.0'',
        ''  x: .nan'',
        ''  y: 2.0'',
        ''  z: 3.0'']"

definition nan_dump :: "pyval \<Rightarrow> string" where
  "nan_dump d = (if d = to_dict cal_nan then cal_nan_text else [])"

definition nan_safe_load :: "float64 \<Rightarrow> string \<Rightarrow> error + pyval" where
  "nan_safe_load nan_value s =
     (if s = cal_nan_text then Inr (yaml_loaded nan_value (to_dict cal_nan))
      else Inl YAMLError)"

text \<open>What is read back from that text where the parser's NaN is \<open>0xFFF8000000000000\<close>.\<close>

definition cal_nan_loaded :: HandeyeCalibration where
  "cal_nan_loaded =
     cal1\<lparr> transformation := (transformation cal1)\<lparr> transform :=
       cal1_transform\<lparr> translation :=
         (translation cal1_transform)\<lparr> Vector3_x := 0xFFF8000000000000 \<rparr> \<rparr> \<rparr> \<rparr>"

section \<open>Basic facts\<close>

lemma and_then_simps [simp]:
  "and_then (Inl e) f = Inl e"
  "and_then (Inr v) f = f v"
  by (simp_all add: and_then_def)

lemma and_then_Inr: "and_then m f = Inr y \<longleftrightarrow> (\<exists>v. m = Inr v \<and> f v = Inr y)"
  by (cases m) simp_all

lemma as_str_Inr: "as_str v = Inr s \<longleftrightarrow> v = PStr s"
  by (cases v) auto

lemma as_float_Inr: "as_float v = Inr f \<longleftrightarrow> v = PFloat f"
  by (cases v) auto

lemma is_str_iff: "is_str v \<longleftrightarrow> (\<exists>s. v = PStr s)"
  by (cases v) auto

lemma is_bool_iff: "is_bool v \<longleftrightarrow> (\<exists>b. v = PBool b)"
  by (cases v) auto

lemma typed_cal1_parameters: "typed_parameters cal1_parameters"
  by (simp add: typed_parameters_def cal1_parameters_def)

lemma Vector3_eta:
  "\<lparr> Vector3_x = Vector3_x v, Vector3_y = Vector3_y v, Vector3_z = Vector3_z v \<rparr> = v"
  by (cases v) simp

lemma Quaternion_eta:
  "\<lparr> Quaternion_x = Quaternion_x q, Quaternion_y = Quaternion_y q,
     Quaternion_z = Quaternion_z q, Quaternion_w = Quaternion_w q \<rparr> = q"
  by (cases q) simp

lemma Transform_eta: "\<lparr> translation = translation t, rotation = rotation t \<rparr> = t"
  by (cases t) simp

text \<open>
  The constructor returns an object exactly when the frame it selects and the tracking base
  frame are strings, and then the object is this one.
\<close>

lemma init_Some_Inr:
  "HandeyeCalibration_init (Some p) t = Inr r \<longleftrightarrow>
     (\<exists>frame child.
        (if truthy (eye_in_hand p) then robot_effector_frame p else robot_base_frame p) =
          PStr frame \<and>
        tracking_base_frame p = PStr child \<and>
        r = \<lparr> parameters = p,
              transformation =
                \<lparr> header = \<lparr> stamp = \<lparr> sec = 0, nanosec = 0 \<rparr>, frame_id = frame \<rparr>,
                  child_frame_id = child,
                  transform = (case t of None \<Rightarrow> Transform_default | Some u \<Rightarrow> u) \<rparr> \<rparr>)"
  by (auto simp add: HandeyeCalibration_init_def Let_def and_then_Inr as_str_Inr
      TransformStamped_init_def Header_default_def)

lemma typed_frames:
  assumes "typed_parameters p"
  obtains b e c i where "robot_base_frame p = PStr b" "robot_effector_frame p = PStr e"
    "tracking_base_frame p = PStr c" "eye_in_hand p = PBool i"
  using assms by (auto simp add: typed_parameters_def is_str_iff is_bool_iff)

section \<open>Frame derivation, defaults and construction\<close>

text \<open>
  C4. For every HandeyeCalibrationParameters \<open>p\<close> whose fields are typed as annotated and
  every transformation argument \<open>t\<close>, given or omitted, the constructor returns a
  calibration whose \<open>frame_id\<close> is \<open>p.robot_effector_frame\<close> when \<open>p.eye_in_hand\<close> is
  \<open>True\<close> and \<open>p.robot_base_frame\<close> when it is \<open>False\<close>, and whose \<open>child_frame_id\<close>
  is \<open>p.tracking_base_frame\<close>. And whatever \<open>p\<close> holds, a calibration that the
  constructor returns has its \<open>frame_id\<close> chosen by the truth value of \<open>p.eye_in_hand\<close>
  and \<open>p.tracking_base_frame\<close> as its \<open>child_frame_id\<close>.
\<close>

theorem frame_derivation:
  "(typed_parameters p \<longrightarrow>
      (\<exists>r. HandeyeCalibration_init (Some p) t = Inr r \<and>
           parameters r = p \<and>
           (eye_in_hand p = PBool True \<longrightarrow>
              PStr (frame_id (header (transformation r))) = robot_effector_frame p) \<and>
           (eye_in_hand p = PBool False \<longrightarrow>
              PStr (frame_id (header (transformation r))) = robot_base_frame p) \<and>
           PStr (child_frame_id (transformation r)) = tracking_base_frame p)) \<and>
   (HandeyeCalibration_init (Some p) t = Inr r' \<longrightarrow>
      PStr (frame_id (header (transformation r'))) =
        (if truthy (eye_in_hand p) then robot_effector_frame p else robot_base_frame p) \<and>
      PStr (child_frame_id (transformation r')) = tracking_base_frame p)"
proof (intro conjI impI)
  assume "typed_parameters p"
  then obtain b e c i where "robot_base_frame p = PStr b"
    "robot_effector_frame p = PStr e" "tracking_base_frame p = PStr c"
    "eye_in_hand p = PBool i"
    by (rule typed_frames)
  then show "\<exists>r. HandeyeCalibration_init (Some p) t = Inr r \<and>
           parameters r = p \<and>
           (eye_in_hand p = PBool True \<longrightarrow>
              PStr (frame_id (header (transformation r))) = robot_effector_frame p) \<and>
           (eye_in_hand p = PBool False \<longrightarrow>
              PStr (frame_id (header (transformation r))) = robot_base_frame p) \<and>
           PStr (child_frame_id (transformation r)) = tracking_base_frame p"
    by (simp add: init_Some_Inr)
next
  assume "HandeyeCalibration_init (Some p) t = Inr r'"
  then obtain frame child where
    f: "(if truthy (eye_in_hand p) then robot_effector_frame p else robot_base_frame p) =
          PStr frame"
    and c: "tracking_base_frame p = PStr child"
    and r: "r' = \<lparr> parameters = p,
              transformation =
                \<lparr> header = \<lparr> stamp = \<lparr> sec = 0, nanosec = 0 \<rparr>, frame_id = frame \<rparr>,
                  child_frame_id = child,
                  transform = (case t of None \<Rightarrow> Transform_default | Some u \<Rightarrow> u) \<rparr> \<rparr>"
    unfolding init_Some_Inr by blast
  show "PStr (frame_id (header (transformation r'))) =
        (if truthy (eye_in_hand p) then robot_effector_frame p else robot_base_frame p)"
    unfolding f by (simp add: r)
  show "PStr (child_frame_id (transformation r')) = tracking_base_frame p"
    unfolding c by (simp add: r)
qed

theorem frame_derivation_witness:
  "typed_parameters cal1_parameters \<and>
   HandeyeCalibration_init (Some cal1_parameters) (Some cal1_transform) = Inr cal1 \<and>
   frame_id (header (transformation cal1)) = ''tool0'' \<and>
   child_frame_id (transformation cal1) = ''camera_link'' \<and>
   typed_parameters (cal1_parameters\<lparr> eye_in_hand := PBool False \<rparr>) \<and>
   (\<exists>r. HandeyeCalibration_init (Some (cal1_parameters\<lparr> eye_in_hand := PBool False \<rparr>)) None
          = Inr r \<and>
        frame_id (header (transformation r)) = ''base_link'' \<and>
        child_frame_id (transformation r) = ''camera_link'')"
proof -
  let ?q = "cal1_parameters\<lparr> eye_in_hand := PBool False \<rparr>"
  have t1: "typed_parameters cal1_parameters"
    by (rule typed_cal1_parameters)
  have t2: "typed_parameters ?q"
    by (simp add: typed_parameters_def cal1_parameters_def)
  have i: "HandeyeCalibration_init (Some cal1_parameters) (Some cal1_transform) = Inr cal1"
    by (simp add: init_Some_Inr cal1_def cal1_parameters_def)
  have "PStr (frame_id (header (transformation cal1))) =
        (if truthy (eye_in_hand cal1_parameters) then robot_effector_frame cal1_parameters
         else robot_base_frame cal1_parameters) \<and>
      PStr (child_frame_id (transformation cal1)) = tracking_base_frame cal1_parameters"
    using frame_derivation [of cal1_parameters "Some cal1_transform" cal1] i
    by (elim conjE) (erule mp)
  then have 1: "frame_id (header (transformation cal1)) = ''tool0'' \<and>
      child_frame_id (transformation cal1) = ''camera_link''"
    by (simp add: cal1_parameters_def)
  have "\<exists>r. HandeyeCalibration_init (Some ?q) None = Inr r \<and>
           parameters r = ?q \<and>
           (eye_in_hand ?q = PBool True \<longrightarrow>
              PStr (frame_id (header (transformation r))) = robot_effector_frame ?q) \<and>
           (eye_in_hand ?q = PBool False \<longrightarrow>
              PStr (frame_id (header (transformation r))) = robot_base_frame ?q) \<and>
           PStr (child_frame_id (transformation r)) = tracking_base_frame ?q"
    using frame_derivation [of ?q None cal1] t2
    by (elim conjE) (erule mp)
  then have 2: "\<exists>r. HandeyeCalibration_init (Some ?q) None = Inr r \<and>
        frame_id (header (transformation r)) = ''base_link'' \<and>
        child_frame_id (transformation r) = ''camera_link''"
    by (auto simp add: cal1_parameters_def)
  from t1 i 1 [THEN conjunct1] 1 [THEN conjunct2] t2 2 show ?thesis
    by (intro conjI)
qed

text \<open>
  C7. Whatever the seven required fields are, a HandeyeCalibrationParameters constructed
  without the two optional arguments has \<open>move_group_namespace = '/'\<close> and
  \<open>move_group = 'manipulator'\<close>.
\<close>

theorem parameters_defaults:
  "move_group_namespace
     (HandeyeCalibrationParameters_init n e rb re tb tm fr None None) = PStr ''/'' \<and>
   move_group
     (HandeyeCalibrationParameters_init n e rb re tb tm fr None None) = PStr ''manipulator''"
  by (simp add: HandeyeCalibrationParameters_init_def)

text \<open>
  C8. For every HandeyeCalibrationParameters \<open>p\<close> whose fields are typed as annotated,
  the constructor with the transformation omitted raises nothing and returns a calibration
  whose translation is all zero and whose rotation is the default of the Quaternion message.
\<close>

theorem default_transformation:
  assumes "typed_parameters p"
  shows "\<exists>r. HandeyeCalibration_init (Some p) None = Inr r \<and>
           translation (transform (transformation r)) =
             \<lparr> Vector3_x = 0, Vector3_y = 0, Vector3_z = 0 \<rparr> \<and>
           rotation (transform (transformation r)) = Quaternion_default"
proof -
  from assms obtain b e c i where "robot_base_frame p = PStr b"
    "robot_effector_frame p = PStr e" "tracking_base_frame p = PStr c"
    "eye_in_hand p = PBool i"
    by (rule typed_frames)
  then show ?thesis
    by (simp add: init_Some_Inr Transform_default_def Vector3_default_def)
qed

theorem default_transformation_witness:
  "typed_parameters cal1_parameters \<and>
   (\<exists>r. HandeyeCalibration_init (Some cal1_parameters) None = Inr r \<and>
        Vector3_x (translation (transform (transformation r))) = 0 \<and>
        Vector3_y (translation (transform (transformation r))) = 0 \<and>
        Vector3_z (translation (transform (transformation r))) = 0 \<and>
        Quaternion_w (rotation (transform (transformation r))) = 0x3FF0000000000000)"
proof -
  have t: "typed_parameters cal1_parameters"
    by (rule typed_cal1_parameters)
  from default_transformation [OF t]
  have "\<exists>r. HandeyeCalibration_init (Some cal1_parameters) None = Inr r \<and>
        Vector3_x (translation (transform (transformation r))) = 0 \<and>
        Vector3_y (translation (transform (transformation r))) = 0 \<and>
        Vector3_z (translation (transform (transformation r))) = 0 \<and>
        Quaternion_w (rotation (transform (transformation r))) = 0x3FF0000000000000"
    by (auto simp add: Quaternion_default_def)
  with t show ?thesis by (rule conjI)
qed

text \<open>
  C10. With the argument \<open>calibration_parameters\<close> omitted the constructor always raises,
  whatever the transformation argument: it reads \<open>eye_in_hand\<close> of \<open>None\<close>. So no
  calibration is ever returned without parameters.
\<close>

theorem init_without_parameters_fails:
  "HandeyeCalibration_init None t = Inl AttributeError \<and>
   (\<nexists>r. HandeyeCalibration_init None t = Inr r)"
  by (simp add: HandeyeCalibration_init_def)

section \<open>Conversion to and from the dictionary\<close>

lemma kwargs_asdict: "HandeyeCalibrationParameters_kwargs (asdict p) = Inr p"
  by (cases p)
     (simp add: HandeyeCalibrationParameters_kwargs_def asdict_def dataclass_fields_def
        required_def HandeyeCalibrationParameters_init_def)

lemma getitem_to_dict_transformation:
  "getitem (to_dict r) ''transformation'' =
     Inr (PDict
           [(PStr ''x'', PFloat (Vector3_x (translation (transform (transformation r))))),
            (PStr ''y'', PFloat (Vector3_y (translation (transform (transformation r))))),
            (PStr ''z'', PFloat (Vector3_z (translation (transform (transformation r))))),
            (PStr ''qx'', PFloat (Quaternion_x (rotation (transform (transformation r))))),
            (PStr ''qy'', PFloat (Quaternion_y (rotation (transform (transformation r))))),
            (PStr ''qz'', PFloat (Quaternion_z (rotation (transform (transformation r))))),
            (PStr ''qw'', PFloat (Quaternion_w (rotation (transform (transformation r)))))])"
  by (simp add: to_dict_def)

lemma getitem_to_dict_parameters:
  "getitem (to_dict r) ''parameters'' = Inr (asdict (parameters r))"
  by (simp add: to_dict_def)

text \<open>
  Reading back the dictionary of a calibration is constructing anew from its parameters and
  its transform: the header and the child frame of the original do not pass through.
\<close>

lemma from_dict_to_dict:
  "from_dict (to_dict r) =
     HandeyeCalibration_init (Some (parameters r)) (Some (transform (transformation r)))"
  by (simp add: from_dict_def getitem_to_dict_transformation getitem_to_dict_parameters
      kwargs_asdict Vector3_init_def Quaternion_init_def
      Vector3_eta Quaternion_eta Transform_eta)

lemma from_dict_to_dict_cal1: "from_dict (to_dict cal1) = Inr cal1"
  by (simp add: from_dict_to_dict init_Some_Inr cal1_def cal1_parameters_def)

text \<open>
  C1. For every calibration \<open>r\<close> whose parameters are typed as annotated, whatever its
  transform components, \<open>from_dict (to_dict r)\<close> returns a calibration with the same
  parameters and the same transform, whose \<open>frame_id\<close> and \<open>child_frame_id\<close> are derived
  anew from the parameters of \<open>r\<close>. And every calibration \<open>r'\<close> that the constructor has
  returned, whatever its parameters hold, is read back as itself.
\<close>

theorem from_dict_to_dict_roundtrip:
  "(typed_parameters (parameters r) \<longrightarrow>
      (\<exists>r2. from_dict (to_dict r) = Inr r2 \<and>
           parameters r2 = parameters r \<and>
           transform (transformation r2) = transform (transformation r) \<and>
           PStr (frame_id (header (transformation r2))) =
             (if eye_in_hand (parameters r) = PBool True
              then robot_effector_frame (parameters r)
              else robot_base_frame (parameters r)) \<and>
           PStr (child_frame_id (transformation r2)) = tracking_base_frame (parameters r))) \<and>
   (HandeyeCalibration_init (Some p) t = Inr r' \<longrightarrow> from_dict (to_dict r') = Inr r')"
proof (intro conjI impI)
  assume "typed_parameters (parameters r)"
  then obtain b e c i where "robot_base_frame (parameters r) = PStr b"
    "robot_effector_frame (parameters r) = PStr e"
    "tracking_base_frame (parameters r) = PStr c" "eye_in_hand (parameters r) = PBool i"
    by (rule typed_frames)
  then show "\<exists>r2. from_dict (to_dict r) = Inr r2 \<and>
           parameters r2 = parameters r \<and>
           transform (transformation r2) = transform (transformation r) \<and>
           PStr (frame_id (header (transformation r2))) =
             (if eye_in_hand (parameters r) = PBool True
              then robot_effector_frame (parameters r)
              else robot_base_frame (parameters r)) \<and>
           PStr (child_frame_id (transformation r2)) = tracking_base_frame (parameters r)"
    by (simp add: from_dict_to_dict init_Some_Inr)
next
  assume "HandeyeCalibration_init (Some p) t = Inr r'"
  then obtain frame child where
    f: "(if truthy (eye_in_hand p) then robot_effector_frame p else robot_base_frame p) =
          PStr frame"
    and c: "tracking_base_frame p = PStr child"
    and r: "r' = \<lparr> parameters = p,
              transformation =
                \<lparr> header = \<lparr> stamp = \<lparr> sec = 0, nanosec = 0 \<rparr>, frame_id = frame \<rparr>,
                  child_frame_id = child,
                  transform = (case t of None \<Rightarrow> Transform_default | Some u \<Rightarrow> u) \<rparr> \<rparr>"
    unfolding init_Some_Inr by blast
  have "HandeyeCalibration_init (Some (parameters r')) (Some (transform (transformation r')))
          = Inr r'"
    unfolding init_Some_Inr using f c
    by (cases "truthy (eye_in_hand p)") (simp_all add: r)
  then show "from_dict (to_dict r') = Inr r'"
    by (simp only: from_dict_to_dict)
qed

theorem from_dict_to_dict_roundtrip_witness:
  "typed_parameters (parameters (cal1\<lparr> transformation :=
       (transformation cal1)\<lparr> child_frame_id := ''elsewhere'' \<rparr> \<rparr>)) \<and>
   from_dict (to_dict (cal1\<lparr> transformation :=
       (transformation cal1)\<lparr> child_frame_id := ''elsewhere'' \<rparr> \<rparr>)) = Inr cal1 \<and>
   HandeyeCalibration_init (Some cal1_parameters) (Some cal1_transform) = Inr cal1 \<and>
   from_dict (to_dict cal1) = Inr cal1"
proof -
  let ?c = "cal1\<lparr> transformation := (transformation cal1)\<lparr> child_frame_id := ''elsewhere'' \<rparr> \<rparr>"
  have t: "typed_parameters (parameters ?c)"
    by (simp add: cal1_def typed_cal1_parameters)
  have i: "HandeyeCalibration_init (Some cal1_parameters) (Some cal1_transform) = Inr cal1"
    by (simp add: init_Some_Inr cal1_def cal1_parameters_def)
  have "\<exists>r2. from_dict (to_dict ?c) = Inr r2 \<and>
           parameters r2 = parameters ?c \<and>
           transform (transformation r2) = transform (transformation ?c) \<and>
           PStr (frame_id (header (transformation r2))) =
             (if eye_in_hand (parameters ?c) = PBool True
              then robot_effector_frame (parameters ?c)
              else robot_base_frame (parameters ?c)) \<and>
           PStr (child_frame_id (transformation r2)) = tracking_base_frame (parameters ?c)"
    using from_dict_to_dict_roundtrip [of ?c cal1_parameters "Some cal1_transform" cal1] t
    by (elim conjE) (erule mp)
  then have 1: "from_dict (to_dict ?c) = Inr cal1"
    by (auto simp add: from_dict_to_dict init_Some_Inr cal1_def cal1_parameters_def)
  have 2: "from_dict (to_dict cal1) = Inr cal1"
    using from_dict_to_dict_roundtrip [of ?c cal1_parameters "Some cal1_transform" cal1] i
    by (elim conjE) (erule mp)
  from t 1 i 2 show ?thesis
    by (intro conjI)
qed

text \<open>
  The text format adds nothing of its own to the conversion: whenever the parser returns
  the dictionary that the dumper was given, reading back the text of a calibration is
  reading back its dictionary.
\<close>

lemma from_yaml_to_yaml:
  assumes "safe_load (dump (to_dict r)) = Inr (to_dict r)"
  shows "from_yaml safe_load (to_yaml dump r) = from_dict (to_dict r)"
  using assms by (simp add: from_yaml_def to_yaml_def)

lemma raises_only_and_then:
  "raises_only P m \<Longrightarrow> (\<And>v. raises_only P (f v)) \<Longrightarrow> raises_only P (and_then m f)"
  by (cases m) (simp_all add: raises_only_def)

lemma raises_only_if:
  "raises_only P a \<Longrightarrow> raises_only P b \<Longrightarrow> raises_only P (if c then a else b)"
  by simp

lemma raises_only_Inr: "raises_only P (Inr v)"
  by (simp add: raises_only_def)

lemma raises_only_TypeError: "raises_only SchemaMismatch (Inl TypeError)"
  by (simp add: raises_only_def)

lemma raises_only_getitem: "raises_only SchemaMismatch (getitem d k)"
  by (cases d) (simp_all add: raises_only_def split: option.split)

lemma raises_only_as_float: "raises_only SchemaMismatch (as_float v)"
  by (cases v) (simp_all add: raises_only_def)

lemma raises_only_as_str: "raises_only SchemaMismatch (as_str v)"
  by (cases v) (simp_all add: raises_only_def)

lemma raises_only_required: "raises_only SchemaMismatch (required kvs k)"
  by (simp add: raises_only_def required_def split: option.split)

lemma raises_only_kwargs: "raises_only SchemaMismatch (HandeyeCalibrationParameters_kwargs d)"
proof (cases d)
  case (PDict kvs)
  show ?thesis
    unfolding HandeyeCalibrationParameters_kwargs_def PDict pyval.case
    by (intro raises_only_if raises_only_and_then raises_only_required raises_only_Inr
        raises_only_TypeError)
qed (simp_all add: raises_only_def HandeyeCalibrationParameters_kwargs_def)

lemma raises_only_Vector3: "raises_only SchemaMismatch (Vector3_init a b c)"
  unfolding Vector3_init_def
  by (intro raises_only_and_then raises_only_as_float raises_only_Inr)

lemma raises_only_Quaternion: "raises_only SchemaMismatch (Quaternion_init a b c d)"
  unfolding Quaternion_init_def
  by (intro raises_only_and_then raises_only_as_float raises_only_Inr)

lemma raises_only_init: "raises_only SchemaMismatch (HandeyeCalibration_init (Some p) t)"
  unfolding HandeyeCalibration_init_def Let_def option.case
  by (intro raises_only_and_then raises_only_as_str raises_only_Inr)

text \<open>Whatever \<^verbatim>\<open>from_dict\<close> is given, an exception it raises is of the kind SchemaMismatch.\<close>

lemma raises_only_from_dict: "raises_only SchemaMismatch (from_dict d)"
  unfolding from_dict_def
  by (intro raises_only_and_then raises_only_getitem raises_only_kwargs raises_only_Vector3
      raises_only_Quaternion raises_only_init)

text \<open>
  When \<^verbatim>\<open>from_dict\<close> returns, every subscript of the transformation has returned.
\<close>

lemma from_dict_Inr_keys:
  assumes "from_dict d = Inr r"
  shows "\<exists>tr. getitem d ''transformation'' = Inr tr \<and>
           (\<forall>k\<in>set transformation_keys. \<exists>v. getitem tr k = Inr v)"
  using assms unfolding from_dict_def and_then_Inr transformation_keys_def
  by auto

text \<open>
  C5. A dictionary without the key \<^verbatim>\<open>'transformation'\<close> makes \<^verbatim>\<open>from_dict\<close> raise
  \<open>KeyError\<close> for that key. A dictionary whose \<^verbatim>\<open>'transformation'\<close> is a dictionary
  without one of the keys \<open>x, y, z, qx, qy, qz, qw\<close> makes \<^verbatim>\<open>from_dict\<close> raise an exception
  of the kind SchemaMismatch (\<open>KeyError\<close>, \<open>TypeError\<close> or \<open>AssertionError\<close>), whatever
  else the dictionary holds.
\<close>

theorem from_dict_missing_key:
  "(map_of kvs (PStr ''transformation'') = None \<longrightarrow>
      from_dict (PDict kvs) = Inl (KeyError (PStr ''transformation''))) \<and>
   (map_of kvs (PStr ''transformation'') = Some (PDict tr) \<and>
    k \<in> set transformation_keys \<and> map_of tr (PStr k) = None \<longrightarrow>
      (\<exists>e. from_dict (PDict kvs) = Inl e \<and> SchemaMismatch e))"
proof (intro conjI impI)
  assume "map_of kvs (PStr ''transformation'') = None"
  then show "from_dict (PDict kvs) = Inl (KeyError (PStr ''transformation''))"
    by (simp add: from_dict_def)
next
  assume a: "map_of kvs (PStr ''transformation'') = Some (PDict tr) \<and>
    k \<in> set transformation_keys \<and> map_of tr (PStr k) = None"
  have "from_dict (PDict kvs) \<noteq> Inr r" for r
  proof
    assume "from_dict (PDict kvs) = Inr r"
    from from_dict_Inr_keys [OF this] a
    have "\<exists>v. getitem (PDict tr) k = Inr v" by auto
    with a show False by simp
  qed
  then obtain e where e: "from_dict (PDict kvs) = Inl e"
    by (cases "from_dict (PDict kvs)") auto
  with raises_only_from_dict [of "PDict kvs"] have "SchemaMismatch e"
    by (simp add: raises_only_def)
  with e show "\<exists>e. from_dict (PDict kvs) = Inl e \<and> SchemaMismatch e" by blast
qed

theorem from_dict_missing_key_witness:
  "map_of cal1_without_transformation (PStr ''transformation'') = None \<and>
   from_dict (PDict cal1_without_transformation) = Inl (KeyError (PStr ''transformation'')) \<and>
   map_of cal1_without_qw (PStr ''transformation'') = Some (PDict transformation_without_qw) \<and>
   ''qw'' \<in> set transformation_keys \<and>
   map_of transformation_without_qw (PStr ''qw'') = None \<and>
   (\<exists>e. from_dict (PDict cal1_without_qw) = Inl e \<and> SchemaMismatch e)"
proof -
  have 1: "map_of cal1_without_transformation (PStr ''transformation'') = None"
    by (simp add: cal1_without_transformation_def)
  have 2: "map_of cal1_without_qw (PStr ''transformation'') = Some (PDict transformation_without_qw)"
    by (simp add: cal1_without_qw_def)
  have 3: "''qw'' \<in> set transformation_keys"
    by (simp add: transformation_keys_def)
  have 4: "map_of transformation_without_qw (PStr ''qw'') = None"
    by (simp add: transformation_without_qw_def)
  from from_dict_missing_key [of cal1_without_transformation] 1
  have 5: "from_dict (PDict cal1_without_transformation) = Inl (KeyError (PStr ''transformation''))"
    by blast
  from from_dict_missing_key [of cal1_without_qw transformation_without_qw "''qw''"] 2 3 4
  have 6: "\<exists>e. from_dict (PDict cal1_without_qw) = Inl e \<and> SchemaMismatch e"
    by blast
  from 1 2 3 4 5 6 show ?thesis by blast
qed

text \<open>
  C9. The dictionary of a calibration has the two keys \<^verbatim>\<open>'parameters'\<close> and
  \<^verbatim>\<open>'transformation'\<close> and no other. Under the first is a dictionary whose keys are the
  nine field names of the dataclass, each with the value of its field; under the second a
  dictionary whose keys are \<open>x, y, z, qx, qy, qz, qw\<close>, with the components of the
  translation and of the rotation as floats.
\<close>

theorem to_dict_shape:
  "\<exists>ps ts.
     to_dict r = PDict [(PStr ''parameters'', PDict ps), (PStr ''transformation'', PDict ts)] \<and>
     map fst ps =
       map PStr [''name'', ''eye_in_hand'', ''robot_base_frame'', ''robot_effector_frame'',
         ''tracking_base_frame'', ''tracking_marker_frame'', ''freehand_robot_movement'',
         ''move_group_namespace'', ''move_group''] \<and>
     map_of ps (PStr ''name'') = Some (name (parameters r)) \<and>
     map_of ps (PStr ''eye_in_hand'') = Some (eye_in_hand (parameters r)) \<and>
     map_of ps (PStr ''robot_base_frame'') = Some (robot_base_frame (parameters r)) \<and>
     map_of ps (PStr ''robot_effector_frame'') = Some (robot_effector_frame (parameters r)) \<and>
     map_of ps (PStr ''tracking_base_frame'') = Some (tracking_base_frame (parameters r)) \<and>
     map_of ps (PStr ''tracking_marker_frame'') = Some (tracking_marker_frame (parameters r)) \<and>
     map_of ps (PStr ''freehand_robot_movement'') =
       Some (freehand_robot_movement (parameters r)) \<and>
     map_of ps (PStr ''move_group_namespace'') = Some (move_group_namespace (parameters r)) \<and>
     map_of ps (PStr ''move_group'') = Some (move_group (parameters r)) \<and>
     map fst ts = map PStr [''x'', ''y'', ''z'', ''qx'', ''qy'', ''qz'', ''qw''] \<and>
     map_of ts (PStr ''x'') =
       Some (PFloat (Vector3_x (translation (transform (transformation r))))) \<and>
     map_of ts (PStr ''y'') =
       Some (PFloat (Vector3_y (translation (transform (transformation r))))) \<and>
     map_of ts (PStr ''z'') =
       Some (PFloat (Vector3_z (translation (transform (transformation r))))) \<and>
     map_of ts (PStr ''qx'') =
       Some (PFloat (Quaternion_x (rotation (transform (transformation r))))) \<and>
     map_of ts (PStr ''qy'') =
       Some (PFloat (Quaternion_y (rotation (transform (transformation r))))) \<and>
     map_of ts (PStr ''qz'') =
       Some (PFloat (Quaternion_z (rotation (transform (transformation r))))) \<and>
     map_of ts (PStr ''qw'') =
       Some (PFloat (Quaternion_w (rotation (transform (transformation r)))))"
  by (simp add: to_dict_def asdict_def dataclass_fields_def)

section \<open>Reading the parameters from the node\<close>

text \<open>
  C6. For every node: a result of \<^verbatim>\<open>read\<close> holds the defaults \<open>'/'\<close> and
  \<open>'manipulator'\<close> in \<open>move_group_namespace\<close> and \<open>move_group\<close>; two nodes that agree on
  the seven declared names give the same outcome of \<^verbatim>\<open>read\<close>, whatever else is declared
  on them; and when the seven names are declared, \<^verbatim>\<open>read\<close> returns the record made of their
  string and boolean values and of the two defaults.
\<close>

theorem read_seven_names:
  "(read node = Inr p \<longrightarrow>
      move_group_namespace p = PStr ''/'' \<and> move_group p = PStr ''manipulator'') \<and>
   ((\<forall>k\<in>set declared_names. node k = node' k) \<longrightarrow> read node = read node') \<and>
   ((\<forall>k\<in>set declared_names. node k = Some (v k)) \<longrightarrow>
      read node =
        Inr \<lparr> name = PStr (string_value (v ''name'')),
              eye_in_hand = PBool (bool_value (v ''eye_in_hand'')),
              robot_base_frame = PStr (string_value (v ''robot_base_frame'')),
              robot_effector_frame = PStr (string_value (v ''robot_effector_frame'')),
              tracking_base_frame = PStr (string_value (v ''tracking_base_frame'')),
              tracking_marker_frame = PStr (string_value (v ''tracking_marker_frame'')),
              freehand_robot_movement = PBool (bool_value (v ''freehand_robot_movement'')),
              move_group_namespace = PStr ''/'',
              move_group = PStr ''manipulator'' \<rparr>)"
proof (intro conjI impI)
  assume "read node = Inr p"
  then show "move_group_namespace p = PStr ''/''" "move_group p = PStr ''manipulator''"
    by (auto simp add: read_def and_then_Inr HandeyeCalibrationParameters_init_def)
next
  assume "\<forall>k\<in>set declared_names. node k = node' k"
  then have "get_parameter node k = get_parameter node' k" if "k \<in> set declared_names" for k
    using that by (simp add: get_parameter_def)
  then show "read node = read node'"
    by (simp add: read_def declared_names_def)
next
  assume "\<forall>k\<in>set declared_names. node k = Some (v k)"
  then have "get_parameter node k = Inr (v k)" if "k \<in> set declared_names" for k
    using that by (simp add: get_parameter_def)
  then show "read node = Inr \<lparr> name = PStr (string_value (v ''name'')),
              eye_in_hand = PBool (bool_value (v ''eye_in_hand'')),
              robot_base_frame = PStr (string_value (v ''robot_base_frame'')),
              robot_effector_frame = PStr (string_value (v ''robot_effector_frame'')),
              tracking_base_frame = PStr (string_value (v ''tracking_base_frame'')),
              tracking_marker_frame = PStr (string_value (v ''tracking_marker_frame'')),
              freehand_robot_movement = PBool (bool_value (v ''freehand_robot_movement'')),
              move_group_namespace = PStr ''/'',
              move_group = PStr ''manipulator'' \<rparr>"
    by (simp add: read_def declared_names_def HandeyeCalibrationParameters_init_def)
qed

theorem read_seven_names_witness:
  "read cal1_node = Inr cal1_parameters \<and>
   move_group_namespace cal1_parameters = PStr ''/'' \<and>
   move_group cal1_parameters = PStr ''manipulator'' \<and>
   list_all (\<lambda>k. cal1_node k = (cal1_node(''move_group'' := None)) k) declared_names \<and>
   read cal1_node = read (cal1_node(''move_group'' := None)) \<and>
   list_all (\<lambda>k. cal1_node k = Some (the (cal1_node k))) declared_names"
proof -
  have 1: "\<forall>k\<in>set declared_names. cal1_node k = Some (the (cal1_node k))"
    by (simp add: declared_names_def cal1_node_def)
  have 2: "\<forall>k\<in>set declared_names. cal1_node k = (cal1_node(''move_group'' := None)) k"
    by (simp add: declared_names_def)
  note inst = read_seven_names [of cal1_node cal1_parameters "cal1_node(''move_group'' := None)"
      "\<lambda>k. the (cal1_node k)"]
  have a: "read cal1_node = Inr cal1_parameters \<longrightarrow>
      move_group_namespace cal1_parameters = PStr ''/'' \<and>
      move_group cal1_parameters = PStr ''manipulator''"
    using inst by (elim conjE)
  have b: "(\<forall>k\<in>set declared_names. cal1_node k = (cal1_node(''move_group'' := None)) k) \<longrightarrow>
      read cal1_node = read (cal1_node(''move_group'' := None))"
    using inst by (elim conjE)
  have c: "read cal1_node =
        Inr \<lparr> name = PStr (string_value (the (cal1_node ''name''))),
              eye_in_hand = PBool (bool_value (the (cal1_node ''eye_in_hand''))),
              robot_base_frame = PStr (string_value (the (cal1_node ''robot_base_frame''))),
              robot_effector_frame = PStr (string_value (the (cal1_node ''robot_effector_frame''))),
              tracking_base_frame = PStr (string_value (the (cal1_node ''tracking_base_frame''))),
              tracking_marker_frame = PStr (string_value (the (cal1_node ''tracking_marker_frame''))),
              freehand_robot_movement =
                PBool (bool_value (the (cal1_node ''freehand_robot_movement''))),
              move_group_namespace = PStr ''/'',
              move_group = PStr ''manipulator'' \<rparr>"
    using inst 1 by (elim conjE) (erule mp)
  have 3: "read cal1_node = Inr cal1_parameters"
    unfolding c by (simp add: cal1_node_def cal1_parameters_def)
  from a 3 have 4: "move_group_namespace cal1_parameters = PStr ''/'' \<and>
      move_group cal1_parameters = PStr ''manipulator''"
    by (rule mp)
  from b 2 have 5: "read cal1_node = read (cal1_node(''move_group'' := None))"
    by (rule mp)
  from 1 2 3 4 5 show ?thesis
    by (simp only: list_all_iff simp_thms)
qed

section \<open>Files\<close>

text \<open>
  C3. Both path derivations raise \<open>ValueError('TODO')\<close>, whatever they are given. So
  \<^verbatim>\<open>to_file\<close> raises in every file system, for every calibration (when the directory
  exists, that \<open>ValueError\<close>, with the file system unchanged), and \<^verbatim>\<open>from_file\<close> raises
  that \<open>ValueError\<close> for every name. \<^verbatim>\<open>from_filename\<close> derives no path: when the file at
  the given path can be read and its text parses to a dictionary, its outcome is that of
  \<^verbatim>\<open>from_dict\<close> on that dictionary.
\<close>

theorem path_derivation_unimplemented:
  "filename c = Inl (ValueError ''TODO'') \<and>
   filename_for_namespace ns = Inl (ValueError ''TODO'') \<and>
   (\<exists>e w'. to_file sys dump home w c = (w', Inl e)) \<and>
   (path_exists sys w (DIRECTORY home) \<longrightarrow>
      to_file sys dump home w c = (w, Inl (ValueError ''TODO''))) \<and>
   from_file sys safe_load w ns = Inl (ValueError ''TODO'') \<and>
   (open_read sys w path = Inr content \<and> safe_load content = Inr d \<longrightarrow>
      from_filename sys safe_load w path = from_dict d)"
proof (intro conjI impI)
  show "\<exists>e w'. to_file sys dump home w c = (w', Inl e)"
  proof (cases "makedirs sys w (DIRECTORY home)")
    case (Pair w1 res)
    then show ?thesis
      by (cases res) (simp_all add: to_file_def filename_def)
  qed
qed (simp_all add: filename_def filename_for_namespace_def to_file_def from_file_def
    from_filename_def from_yaml_def)

theorem path_derivation_unimplemented_witness:
  "path_exists example_os example_world (DIRECTORY ''/home/user'') \<and>
   to_file example_os example_dump ''/home/user'' example_world cal1 =
     (example_world, Inl (ValueError ''TODO'')) \<and>
   from_file example_os example_safe_load example_world ''cal1'' = Inl (ValueError ''TODO'') \<and>
   open_read example_os example_world ''/tmp/cal1.yaml'' = Inr ''cal1'' \<and>
   example_safe_load ''cal1'' = Inr (to_dict cal1) \<and>
   from_filename example_os example_safe_load example_world ''/tmp/cal1.yaml'' = Inr cal1"
proof -
  have 1: "path_exists example_os example_world (DIRECTORY ''/home/user'')"
    by (simp add: example_os_def example_world_def DIRECTORY_def)
  have 2: "open_read example_os example_world ''/tmp/cal1.yaml'' = Inr ''cal1''"
    by (simp add: example_os_def example_world_def)
  have 3: "example_safe_load ''cal1'' = Inr (to_dict cal1)"
    by (simp add: example_safe_load_def)
  have 4: "from_dict (to_dict cal1) = Inr cal1"
    by (rule from_dict_to_dict_cal1)
  note inst = path_derivation_unimplemented [of cal1 "''cal1''" example_os example_dump
      "''/home/user''" example_world example_safe_load "''/tmp/cal1.yaml''" "''cal1''"
      "to_dict cal1"]
  from inst have a: "path_exists example_os example_world (DIRECTORY ''/home/user'') \<longrightarrow>
     to_file example_os example_dump ''/home/user'' example_world cal1 =
     (example_world, Inl (ValueError ''TODO''))"
    by (elim conjE)
  from inst have 6: "from_file example_os example_safe_load example_world ''cal1'' =
     Inl (ValueError ''TODO'')"
    by (elim conjE)
  from inst have b: "open_read example_os example_world ''/tmp/cal1.yaml'' = Inr ''cal1'' \<and>
      example_safe_load ''cal1'' = Inr (to_dict cal1) \<longrightarrow>
      from_filename example_os example_safe_load example_world ''/tmp/cal1.yaml'' =
      from_dict (to_dict cal1)"
    by (elim conjE)
  from a 1 have 5: "to_file example_os example_dump ''/home/user'' example_world cal1 =
     (example_world, Inl (ValueError ''TODO''))"
    by (rule mp)
  from 2 3 have c: "from_filename example_os example_safe_load example_world ''/tmp/cal1.yaml'' =
      from_dict (to_dict cal1)"
    by (intro mp [OF b] conjI)
  have 7:
    "from_filename example_os example_safe_load example_world ''/tmp/cal1.yaml'' = Inr cal1"
    unfolding c by (rule 4)
  from 1 5 6 2 3 7 show ?thesis
    by (intro conjI)
qed

section \<open>The text round trip\<close>

lemma components_eq_iff: "components t = components u \<longleftrightarrow> t = u"
proof
  assume c: "components t = components u"
  have "translation t = translation u"
    using c by (cases "translation t"; cases "translation u") (simp add: components_def)
  moreover have "rotation t = rotation u"
    using c by (cases "rotation t"; cases "rotation u") (simp add: components_def)
  ultimately show "t = u"
    by (cases t; cases u) simp
qed simp

lemma yaml_float_not_nan: "\<not> is_nan f \<Longrightarrow> yaml_float nan_value f = f"
  by (simp add: yaml_float_def)

text \<open>Whatever the parser's NaN is, some NaN does not come back with its own bits.\<close>

lemma yaml_float_changes_a_nan: "\<exists>f. is_nan f \<and> yaml_float nan_value f \<noteq> f"
proof (cases "nan_value = 0x7FF8000000000000")
  case True
  have "is_nan 0xFFF8000000000000"
    by (simp add: is_nan_def)
  then have "is_nan 0xFFF8000000000000 \<and> yaml_float nan_value 0xFFF8000000000000 \<noteq> 0xFFF8000000000000"
    by (simp add: yaml_float_def True)
  then show ?thesis ..
next
  case False
  have "is_nan 0x7FF8000000000000"
    by (simp add: is_nan_def)
  then have "is_nan 0x7FF8000000000000 \<and> yaml_float nan_value 0x7FF8000000000000 \<noteq> 0x7FF8000000000000"
    using False by (simp add: yaml_float_def)
  then show ?thesis ..
qed

lemma yaml_loaded_asdict:
  assumes "typed_parameters p"
  shows "yaml_loaded nan_value (asdict p) = asdict p"
proof -
  from assms obtain s1 b2 s3 s4 s5 s6 b7 s8 s9 where
    "name p = PStr s1" "eye_in_hand p = PBool b2" "robot_base_frame p = PStr s3"
    "robot_effector_frame p = PStr s4" "tracking_base_frame p = PStr s5"
    "tracking_marker_frame p = PStr s6" "freehand_robot_movement p = PBool b7"
    "move_group_namespace p = PStr s8" "move_group p = PStr s9"
    by (auto simp add: typed_parameters_def is_str_iff is_bool_iff)
  then show ?thesis
    by (simp add: asdict_def dataclass_fields_def)
qed

text \<open>
  Reading the returned structure of a calibration with typed parameters is constructing
  anew from its parameters and from its transform with every NaN replaced.
\<close>

lemma from_dict_yaml_loaded:
  assumes "typed_parameters (parameters r)"
  shows "from_dict (yaml_loaded nan_value (to_dict r)) =
     HandeyeCalibration_init (Some (parameters r))
       (Some \<lparr> translation =
                 \<lparr> Vector3_x = yaml_float nan_value (Vector3_x (translation (transform (transformation r)))),
                   Vector3_y = yaml_float nan_value (Vector3_y (translation (transform (transformation r)))),
                   Vector3_z = yaml_float nan_value (Vector3_z (translation (transform (transformation r)))) \<rparr>,
               rotation =
                 \<lparr> Quaternion_x = yaml_float nan_value (Quaternion_x (rotation (transform (transformation r)))),
                   Quaternion_y = yaml_float nan_value (Quaternion_y (rotation (transform (transformation r)))),
                   Quaternion_z = yaml_float nan_value (Quaternion_z (rotation (transform (transformation r)))),
                   Quaternion_w = yaml_float nan_value (Quaternion_w (rotation (transform (transformation r)))) \<rparr> \<rparr>)"
proof -
  have "yaml_loaded nan_value (to_dict r) =
     PDict
       [(PStr ''parameters'', asdict (parameters r)),
        (PStr ''transformation'',
         PDict
           [(PStr ''x'', PFloat (yaml_float nan_value (Vector3_x (translation (transform (transformation r)))))),
            (PStr ''y'', PFloat (yaml_float nan_value (Vector3_y (translation (transform (transformation r)))))),
            (PStr ''z'', PFloat (yaml_float nan_value (Vector3_z (translation (transform (transformation r)))))),
            (PStr ''qx'', PFloat (yaml_float nan_value (Quaternion_x (rotation (transform (transformation r)))))),
            (PStr ''qy'', PFloat (yaml_float nan_value (Quaternion_y (rotation (transform (transformation r)))))),
            (PStr ''qz'', PFloat (yaml_float nan_value (Quaternion_z (rotation (transform (transformation r)))))),
            (PStr ''qw'', PFloat (yaml_float nan_value (Quaternion_w (rotation (transform (transformation r))))))])]"
    by (simp add: to_dict_def yaml_loaded_asdict [OF assms])
  then show ?thesis
    by (simp add: from_dict_def kwargs_asdict Vector3_init_def Quaternion_init_def)
qed

text \<open>
  C2. For every calibration \<open>r\<close> whose parameters are typed as annotated, when the parser
  returns for the text of \<open>r\<close> what the text format returns for the dictionary of \<open>r\<close>,
  \<open>from_yaml (to_yaml r)\<close> returns a calibration with the same parameters, with
  \<open>frame_id\<close> and \<open>child_frame_id\<close> derived anew from them, and with each of the seven
  transform components as it was unless it is a NaN, which comes back as the parser's NaN.
  So the transform is the same whenever no component is a NaN.
\<close>

theorem from_yaml_to_yaml_roundtrip:
  assumes "typed_parameters (parameters r)"
    and "safe_load (dump (to_dict r)) = Inr (yaml_loaded nan_value (to_dict r))"
  shows "\<exists>r2. from_yaml safe_load (to_yaml dump r) = Inr r2 \<and>
           parameters r2 = parameters r \<and>
           components (transform (transformation r2)) =
             map (yaml_float nan_value) (components (transform (transformation r))) \<and>
           (list_all (\<lambda>c. \<not> is_nan c) (components (transform (transformation r))) \<longrightarrow>
              transform (transformation r2) = transform (transformation r)) \<and>
           PStr (frame_id (header (transformation r2))) =
             (if eye_in_hand (parameters r) = PBool True
              then robot_effector_frame (parameters r)
              else robot_base_frame (parameters r)) \<and>
           PStr (child_frame_id (transformation r2)) = tracking_base_frame (parameters r)"
proof -
  from assms(1) obtain b e c i where typed: "robot_base_frame (parameters r) = PStr b"
    "robot_effector_frame (parameters r) = PStr e"
    "tracking_base_frame (parameters r) = PStr c" "eye_in_hand (parameters r) = PBool i"
    by (rule typed_frames)
  have eq: "from_yaml safe_load (to_yaml dump r) = from_dict (yaml_loaded nan_value (to_dict r))"
    by (simp add: from_yaml_def to_yaml_def assms(2))
  define r2 where "r2 =
     \<lparr> parameters = parameters r,
       transformation =
         \<lparr> header = \<lparr> stamp = \<lparr> sec = 0, nanosec = 0 \<rparr>, frame_id = (if i then e else b) \<rparr>,
           child_frame_id = c,
           transform =
             \<lparr> translation =
                 \<lparr> Vector3_x = yaml_float nan_value (Vector3_x (translation (transform (transformation r)))),
                   Vector3_y = yaml_float nan_value (Vector3_y (translation (transform (transformation r)))),
                   Vector3_z = yaml_float nan_value (Vector3_z (translation (transform (transformation r)))) \<rparr>,
               rotation =
                 \<lparr> Quaternion_x = yaml_float nan_value (Quaternion_x (rotation (transform (transformation r)))),
                   Quaternion_y = yaml_float nan_value (Quaternion_y (rotation (transform (transformation r)))),
                   Quaternion_z = yaml_float nan_value (Quaternion_z (rotation (transform (transformation r)))),
                   Quaternion_w = yaml_float nan_value (Quaternion_w (rotation (transform (transformation r)))) \<rparr> \<rparr> \<rparr> \<rparr>"
  have 1: "from_yaml safe_load (to_yaml dump r) = Inr r2"
    unfolding eq from_dict_yaml_loaded [OF assms(1)]
    using typed by (simp add: init_Some_Inr r2_def)
  have 2: "parameters r2 = parameters r"
    by (simp add: r2_def)
  have 3: "components (transform (transformation r2)) =
             map (yaml_float nan_value) (components (transform (transformation r)))"
    by (simp add: r2_def components_def)
  have 4: "PStr (frame_id (header (transformation r2))) =
             (if eye_in_hand (parameters r) = PBool True
              then robot_effector_frame (parameters r)
              else robot_base_frame (parameters r))"
    using typed by (simp add: r2_def)
  have 5: "PStr (child_frame_id (transformation r2)) = tracking_base_frame (parameters r)"
    using typed by (simp add: r2_def)
  have 6: "list_all (\<lambda>c. \<not> is_nan c) (components (transform (transformation r))) \<longrightarrow>
      transform (transformation r2) = transform (transformation r)"
  proof
    assume "list_all (\<lambda>c. \<not> is_nan c) (components (transform (transformation r)))"
    then have "map (yaml_float nan_value) (components (transform (transformation r))) =
        components (transform (transformation r))"
      by (simp add: components_def yaml_float_not_nan)
    with 3 show "transform (transformation r2) = transform (transformation r)"
      by (simp add: components_eq_iff)
  qed
  from 1 2 3 6 4 5 show ?thesis
    by (intro exI [of _ r2] conjI)
qed

lemma yaml_loaded_cal1: "yaml_loaded nan_value (to_dict cal1) = to_dict cal1"
  by (simp add: to_dict_def yaml_loaded_asdict typed_cal1_parameters cal1_def
      cal1_transform_def yaml_float_def is_nan_def)

theorem from_yaml_to_yaml_roundtrip_witness:
  "typed_parameters (parameters cal1) \<and>
   example_safe_load (example_dump (to_dict cal1)) =
     Inr (yaml_loaded 0xFFF8000000000000 (to_dict cal1)) \<and>
   list_all (\<lambda>c. \<not> is_nan c) (components (transform (transformation cal1))) \<and>
   from_yaml example_safe_load (to_yaml example_dump cal1) = Inr cal1"
proof -
  have 1: "typed_parameters (parameters cal1)"
    by (simp add: cal1_def typed_cal1_parameters)
  have 2: "example_safe_load (example_dump (to_dict cal1)) =
     Inr (yaml_loaded 0xFFF8000000000000 (to_dict cal1))"
    by (simp add: example_safe_load_def example_dump_def yaml_loaded_cal1)
  have 3: "list_all (\<lambda>c. \<not> is_nan c) (components (transform (transformation cal1)))"
    by (simp add: components_def cal1_def cal1_transform_def is_nan_def)
  have 4: "from_yaml example_safe_load (to_yaml example_dump cal1) = Inr cal1"
    using from_yaml_to_yaml_roundtrip [where r = cal1 and safe_load = example_safe_load
        and dump = example_dump and nan_value = "0xFFF8000000000000", OF 1 2]
    by (simp add: from_yaml_def to_yaml_def example_safe_load_def example_dump_def
        from_dict_to_dict_cal1)
  from 1 2 3 4 show ?thesis
    by (intro conjI)
qed

text \<open>
  The claim as it is stated fails at \<open>cal_nan\<close>: its \<open>x\<close> is \<^verbatim>\<open>float('nan')\<close>, the text
  holds \<^verbatim>\<open>x: .nan\<close>, and what is read back holds the parser's NaN, which has other bits.
\<close>

theorem from_yaml_to_yaml_counterexample:
  "typed_parameters (parameters cal_nan) \<and>
   nan_safe_load 0xFFF8000000000000 (nan_dump (to_dict cal_nan)) =
     Inr (yaml_loaded 0xFFF8000000000000 (to_dict cal_nan)) \<and>
   from_yaml (nan_safe_load 0xFFF8000000000000) (to_yaml nan_dump cal_nan) = Inr cal_nan_loaded \<and>
   Vector3_x (translation (transform (transformation cal_nan))) = 0x7FF8000000000000 \<and>
   Vector3_x (translation (transform (transformation cal_nan_loaded))) = 0xFFF8000000000000 \<and>
   transform (transformation cal_nan_loaded) \<noteq> transform (transformation cal_nan)"
proof -
  have 1: "typed_parameters (parameters cal_nan)"
    by (simp add: cal_nan_def cal1_def typed_cal1_parameters)
  have 2: "nan_safe_load 0xFFF8000000000000 (nan_dump (to_dict cal_nan)) =
     Inr (yaml_loaded 0xFFF8000000000000 (to_dict cal_nan))"
    by (simp add: nan_safe_load_def nan_dump_def)
  have "from_yaml (nan_safe_load 0xFFF8000000000000) (to_yaml nan_dump cal_nan) =
      from_dict (yaml_loaded 0xFFF8000000000000 (to_dict cal_nan))"
    by (simp add: from_yaml_def to_yaml_def 2)
  also have "\<dots> = Inr cal_nan_loaded"
    unfolding from_dict_yaml_loaded [OF 1]
    by (simp add: init_Some_Inr cal_nan_def cal_nan_loaded_def cal1_def cal1_parameters_def
        cal1_transform_def yaml_float_def is_nan_def)
  finally have 3: "from_yaml (nan_safe_load 0xFFF8000000000000) (to_yaml nan_dump cal_nan) =
      Inr cal_nan_loaded" .
  have 4: "Vector3_x (translation (transform (transformation cal_nan))) = 0x7FF8000000000000"
    by (simp add: cal_nan_def)
  have 5: "Vector3_x (translation (transform (transformation cal_nan_loaded))) =
      0xFFF8000000000000"
    by (simp add: cal_nan_loaded_def)
  have 6: "transform (transformation cal_nan_loaded) \<noteq> transform (transformation cal_nan)"
    by (simp add: cal_nan_def cal_nan_loaded_def cal1_transform_def)
  from 1 2 3 4 5 6 show ?thesis
    by (intro conjI)
qed

end
